theory Spec2Isabelle
  imports Main
begin

section \<open>Errors\<close>

text \<open>
  A Go \<open>error\<close> value is a message together with an optional wrapped cause: \<open>New\<close> is
  what \<open>errors.New\<close> builds, \<open>Wrapped\<close> is an error whose \<open>Unwrap\<close> method yields its
  cause (what \<open>fmt.Errorf\<close> builds for a format with one \<open>%w\<close> verb). The nil error is
  \<open>None\<close> of \<open>error option\<close>.
\<close>

datatype error = New string | Wrapped string error

fun Error :: "error \<Rightarrow> string" where
  "Error (New msg) = msg"
| "Error (Wrapped msg cause) = msg"

fun Unwrap :: "error \<Rightarrow> error option" where
  "Unwrap (New msg) = None"
| "Unwrap (Wrapped msg cause) = Some cause"

text \<open>
  \<open>fmt.Errorf(prefix + "%w", err)\<close>, the shape of the begin, cleanup and commit errors of
  tx.go (lines 72, 79 and 94): the message is the prefix followed by the message of
  \<open>err\<close>, and \<open>err\<close> is the wrapped cause.
\<close>

definition Errorf_w :: "string \<Rightarrow> error \<Rightarrow> error" where
  "Errorf_w prefix err = Wrapped (prefix @ Error err) err"

text \<open>
  \<open>fmt.Errorf("transaction rollback failed: %v (original error: %w)", rollbackErr, err)\<close>
  of tx.go line 89: the rollback error is printed with \<open>%v\<close>, the original error is
  printed and wrapped with \<open>%w\<close>.
\<close>

definition Errorf_rollback :: "error \<Rightarrow> error \<Rightarrow> error" where
  "Errorf_rollback rollbackErr err =
     Wrapped (''transaction rollback failed: '' @ Error rollbackErr
                @ '' (original error: '' @ Error err @ '')'') err"

section \<open>Configuration\<close>

text \<open>
  \<open>sql.IsolationLevel\<close> is a Go \<open>int\<close> that the package only stores and passes on;
  \<open>sql.TxOptions\<close> is the struct of the standard library. A \<open>*sql.TxOptions\<close> is an
  \<open>option\<close>, \<open>None\<close> for nil. The options below write through that pointer; the model
  keeps the value the pointer leads to.
\<close>

type_synonym IsolationLevel = int

record TxOptions =
  Isolation :: IsolationLevel
  ReadOnly :: bool

record Config =
  TxOptions :: "TxOptions option"
  DeallocateAll :: bool

type_synonym ConfigOption = "Config \<Rightarrow> Config"

text \<open>The zero values \<open>sql.TxOptions{}\<close> and \<open>Config{}\<close>.\<close>

definition TxOptions_zero :: TxOptions where
  "TxOptions_zero = \<lparr>Isolation = 0, ReadOnly = False\<rparr>"

definition Config_zero :: Config where
  "Config_zero = \<lparr>TxOptions = None, DeallocateAll = False\<rparr>"

definition WithDeallocateAll :: ConfigOption where
  "WithDeallocateAll c = c\<lparr>DeallocateAll := True\<rparr>"


definition WithIsolationLevel :: "IsolationLevel \<Rightarrow> ConfigOption" where
  "WithIsolationLevel level c =
     (let c1 = (if TxOptions c = None then c\<lparr>TxOptions := Some TxOptions_zero\<rparr> else c)
      in c1\<lparr>TxOptions := map_option (\<lambda>t. t\<lparr>Isolation := level\<rparr>) (TxOptions c1)\<rparr>)"

definition WithReadOnly :: ConfigOption where
  "WithReadOnly c =
     (let c1 = (if TxOptions c = None then c\<lparr>TxOptions := Some TxOptions_zero\<rparr> else c)
      in c1\<lparr>TxOptions := map_option (\<lambda>t. t\<lparr>ReadOnly := True\<rparr>) (TxOptions c1)\<rparr>)"

text \<open>
  The loop of tx.go lines 65 to 68: starting from \<open>&Config{}\<close>, each option is applied
  in order.
\<close>

fun applyOptions :: "Config \<Rightarrow> ConfigOption list \<Rightarrow> Config" where
  "applyOptions config [] = config"
| "applyOptions config (option # options) = applyOptions (option config) options"

section \<open>Collaborators\<close>

text \<open>
  A \<open>context.Context\<close> is opaque to the package, which only hands it on to
  \<open>BeginTxx\<close> and \<open>ExecContext\<close>; \<open>Background\<close> is \<open>context.Background()\<close> and
  \<open>WithTimeout\<close> stands for a context derived from a parent.
\<close>

datatype Context = Background | WithTimeout Context nat

text \<open>
  The database handle \<open>*sqlx.DB\<close> and the transaction handles \<open>*sqlx.Tx\<close> it creates
  are external: the model takes their methods as a record of functions over a driver
  state \<open>'s\<close>, each returning its Go result (an error, \<open>None\<close> for nil) and the next state.
  \<open>BeginTxx\<close> returns either an error or a transaction handle \<open>'tx\<close>. The methods return;
  a panic inside the driver is outside the model.
\<close>

record ('s, 'tx) DB =
  BeginTxx :: "Context \<Rightarrow> TxOptions option \<Rightarrow> 's \<Rightarrow> (error + 'tx) \<times> 's"
  ExecContext :: "'tx \<Rightarrow> Context \<Rightarrow> string \<Rightarrow> 's \<Rightarrow> error option \<times> 's"
  Commit :: "'tx \<Rightarrow> 's \<Rightarrow> error option \<times> 's"
  Rollback :: "'tx \<Rightarrow> 's \<Rightarrow> error option \<times> 's"

text \<open>
  How a Go call with results \<open>(T, error)\<close> ends: it returns its two results, or it
  panics with a payload. The payload is the value \<open>recover()\<close> yields, which is not nil
  (since Go 1.21 \<open>panic(nil)\<close> carries a \<open>*runtime.PanicNilError\<close>).
\<close>

datatype ('a, 'p) outcome = Return 'a "error option" | Panic 'p

text \<open>\<open>TxFunc[T]\<close>: the unit of work, run on a transaction handle, acting on the driver state.\<close>

type_synonym ('a, 'p, 's, 'tx) TxFunc = "'tx \<Rightarrow> 's \<Rightarrow> ('a, 'p) outcome \<times> 's"

text \<open>
  The calls \<open>ExecuteContext\<close> itself makes on its collaborators, in the order it makes
  them. What the unit of work does on the handle is part of the driver state, not of
  this trace.
\<close>

datatype 'tx event =
    EvBegin Context "TxOptions option"
  | EvExec 'tx Context string
  | EvTxFunc 'tx
  | EvCommit 'tx
  | EvRollback 'tx

fun is_commit :: "'tx event \<Rightarrow> bool" where
  "is_commit (EvCommit tx) = True"
| "is_commit ev = False"

fun is_rollback :: "'tx event \<Rightarrow> bool" where
  "is_rollback (EvRollback tx) = True"
| "is_rollback ev = False"

fun is_exec :: "'tx event \<Rightarrow> bool" where
  "is_exec (EvExec tx ctx stmt) = True"
| "is_exec ev = False"

fun is_txfunc :: "'tx event \<Rightarrow> bool" where
  "is_txfunc (EvTxFunc tx) = True"
| "is_txfunc ev = False"

definition is_resolve :: "'tx event \<Rightarrow> bool" where
  "is_resolve ev = (is_commit ev \<or> is_rollback ev)"

text \<open>A finished call: how it ended, the driver state it left, and the calls it made.\<close>

type_synonym ('a, 'p, 's, 'tx) run = "('a, 'p) outcome \<times> 's \<times> 'tx event list"

definition outcome_of :: "('a, 'p, 's, 'tx) run \<Rightarrow> ('a, 'p) outcome" where
  "outcome_of r = fst r"

definition trace_of :: "('a, 'p, 's, 'tx) run \<Rightarrow> 'tx event list" where
  "trace_of r = snd (snd r)"

section \<open>The functional-options variant (tx.go lines 1 to 101)\<close>

text \<open>
  The deferred closure of lines 83 to 97. It runs when the body after the \<open>defer\<close>
  statement ends, by return or by panic: \<open>out\<close> is how the body ended, where a
  \<open>Return result err\<close> holds the named results as the \<open>return\<close> statement set them.
  The closure may replace \<open>err\<close>; it never assigns \<open>result\<close>.
\<close>

definition deferred ::
  "('s, 'tx) DB \<Rightarrow> 'tx \<Rightarrow> ('a, 'p) outcome \<Rightarrow> 's \<Rightarrow> 'tx event list \<Rightarrow> ('a, 'p, 's, 'tx) run"
where
  "deferred db tx out s tr =
     (case out of
        Panic p \<Rightarrow>
          (case Rollback db tx s of
             (_, s') \<Rightarrow> (Panic p, s', tr @ [EvRollback tx]))
      | Return result err \<Rightarrow>
          (case err of
             Some e \<Rightarrow>
               (case Rollback db tx s of
                  (Some rollbackErr, s') \<Rightarrow>
                    (Return result (Some (Errorf_rollback rollbackErr e)), s', tr @ [EvRollback tx])
                | (None, s') \<Rightarrow>
                    (Return result (Some e), s', tr @ [EvRollback tx]))
           | None \<Rightarrow>
               (case Commit db tx s of
                  (Some commitErr, s') \<Rightarrow>
                    (Return result (Some (Errorf_w ''failed to commit transaction: '' commitErr)),
                     s', tr @ [EvCommit tx])
                | (None, s') \<Rightarrow>
                    (Return result None, s', tr @ [EvCommit tx]))))"

text \<open>
  \<open>ExecuteContext\<close> of lines 63 to 101. \<open>zero\<close> is the zero value of the result type
  \<open>T\<close>, which the named result \<open>result\<close> holds until line 99 assigns it; \<open>s\<close> is the
  driver state at the call.
\<close>

definition ExecuteContext ::
  "'a \<Rightarrow> Context \<Rightarrow> ('s, 'tx) DB \<Rightarrow> ('a, 'p, 's, 'tx) TxFunc \<Rightarrow> ConfigOption list \<Rightarrow> 's
     \<Rightarrow> ('a, 'p, 's, 'tx) run"
where
  "ExecuteContext zero ctx db txFunc options s =
     (let config = applyOptions Config_zero options;
          tr1 = [EvBegin ctx (TxOptions config)]
      in case BeginTxx db ctx (TxOptions config) s of
           (Inl err, s1) \<Rightarrow>
             (Return zero (Some (Errorf_w ''failed to begin transaction: '' err)), s1, tr1)
         | (Inr tx, s1) \<Rightarrow>
             (if DeallocateAll config then
                (case ExecContext db tx ctx ''DEALLOCATE ALL'' s1 of
                   (Some deallocErr, s2) \<Rightarrow>
                     (case Rollback db tx s2 of
                        (_, s3) \<Rightarrow>
                          (Return zero
                             (Some (Errorf_w ''failed to deallocate prepared statements: ''
                                      deallocErr)),
                           s3, tr1 @ [EvExec tx ctx ''DEALLOCATE ALL'', EvRollback tx]))
                 | (None, s2) \<Rightarrow>
                     (case txFunc tx s2 of
                        (out, s3) \<Rightarrow>
                          deferred db tx out s3
                            (tr1 @ [EvExec tx ctx ''DEALLOCATE ALL'', EvTxFunc tx])))
              else
                (case txFunc tx s1 of
                   (out, s2) \<Rightarrow> deferred db tx out s2 (tr1 @ [EvTxFunc tx]))))"


section \<open>The configuration-struct variant (tx.go lines 102 to 168)\<close>





section \<open>A scripted driver\<close>

text \<open>
  A driver in the manner of the \<open>sqlmock\<close> handle of tx_test.go: each method answers
  with a fixed error (or nil), the state counts the calls the driver has served, and the
  one transaction handle is \<open>1\<close>.
\<close>

definition mockDB ::
  "error option \<Rightarrow> error option \<Rightarrow> error option \<Rightarrow> error option \<Rightarrow> (nat, nat) DB"
where
  "mockDB beginErr execErr commitErr rollbackErr =
     \<lparr>BeginTxx = (\<lambda>ctx opts s. (case beginErr of Some e \<Rightarrow> Inl e | None \<Rightarrow> Inr 1, Suc s)),
      ExecContext = (\<lambda>tx ctx stmt s. (execErr, Suc s)),
      Commit = (\<lambda>tx s. (commitErr, Suc s)),
      Rollback = (\<lambda>tx s. (rollbackErr, Suc s))\<rparr>"

text \<open>Units of work: one that returns its results, one that panics.\<close>

definition returning :: "'a \<Rightarrow> error option \<Rightarrow> ('a, 'p, nat, nat) TxFunc" where
  "returning v err tx s = (Return v err, Suc s)"

definition panicking :: "'p \<Rightarrow> ('a, 'p, nat, nat) TxFunc" where
  "panicking p tx s = (Panic p, Suc s)"

section \<open>The paths through the deferred closure\<close>

lemma deferred_Panic:
  "deferred db tx (Panic p) s tr = (Panic p, snd (Rollback db tx s), tr @ [EvRollback tx])"
  by (simp add: deferred_def split: prod.splits)

lemma deferred_error:
  "deferred db tx (Return v (Some e)) s tr =
     (Return v (Some (case fst (Rollback db tx s) of
                        None \<Rightarrow> e
                      | Some rollbackErr \<Rightarrow> Errorf_rollback rollbackErr e)),
      snd (Rollback db tx s), tr @ [EvRollback tx])"
  by (simp add: deferred_def split: prod.splits option.splits)

lemma deferred_ok:
  "deferred db tx (Return v None) s tr =
     (Return v (map_option (Errorf_w ''failed to commit transaction: '') (fst (Commit db tx s))),
      snd (Commit db tx s), tr @ [EvCommit tx])"
  by (simp add: deferred_def split: prod.splits option.splits)


section \<open>The paths through ExecuteContext\<close>

lemma ExecuteContext_begin_failed:
  assumes "BeginTxx db ctx (TxOptions (applyOptions Config_zero options)) s = (Inl err, s1)"
  shows "ExecuteContext zero ctx db txFunc options s =
           (Return zero (Some (Errorf_w ''failed to begin transaction: '' err)), s1,
            [EvBegin ctx (TxOptions (applyOptions Config_zero options))])"
  using assms by (simp add: ExecuteContext_def Let_def)

lemma ExecuteContext_cleanup_failed:
  assumes "BeginTxx db ctx (TxOptions (applyOptions Config_zero options)) s = (Inr tx, s1)"
    and "DeallocateAll (applyOptions Config_zero options)"
    and "ExecContext db tx ctx ''DEALLOCATE ALL'' s1 = (Some deallocErr, s2)"
  shows "ExecuteContext zero ctx db txFunc options s =
           (Return zero (Some (Errorf_w ''failed to deallocate prepared statements: '' deallocErr)),
            snd (Rollback db tx s2),
            [EvBegin ctx (TxOptions (applyOptions Config_zero options)),
             EvExec tx ctx ''DEALLOCATE ALL'', EvRollback tx])"
  using assms by (simp add: ExecuteContext_def Let_def split: prod.splits)

lemma ExecuteContext_body:
  assumes "BeginTxx db ctx (TxOptions (applyOptions Config_zero options)) s = (Inr tx, s1)"
    and "(if DeallocateAll (applyOptions Config_zero options)
          then ExecContext db tx ctx ''DEALLOCATE ALL'' s1 else (None, s1)) = (None, s2)"
    and "txFunc tx s2 = (out, s3)"
  shows "ExecuteContext zero ctx db txFunc options s =
           deferred db tx out s3
             (EvBegin ctx (TxOptions (applyOptions Config_zero options))
              # (if DeallocateAll (applyOptions Config_zero options)
                 then [EvExec tx ctx ''DEALLOCATE ALL''] else [])
              @ [EvTxFunc tx])"
  using assms by (simp add: ExecuteContext_def Let_def split: prod.splits if_splits)



section \<open>Traces\<close>



section \<open>Option algebra\<close>

lemma WithIsolationLevel_Some:
  "TxOptions (WithIsolationLevel level c) =
     Some ((case TxOptions c of None \<Rightarrow> TxOptions_zero | Some t \<Rightarrow> t)\<lparr>Isolation := level\<rparr>)"
  by (cases "TxOptions c") (simp_all add: WithIsolationLevel_def)

lemma WithReadOnly_Some:
  "TxOptions (WithReadOnly c) =
     Some ((case TxOptions c of None \<Rightarrow> TxOptions_zero | Some t \<Rightarrow> t)\<lparr>ReadOnly := True\<rparr>)"
  by (cases "TxOptions c") (simp_all add: WithReadOnly_def)

lemma WithIsolationLevel_DeallocateAll:
  "DeallocateAll (WithIsolationLevel level c) = DeallocateAll c"
  by (simp add: WithIsolationLevel_def)

lemma WithReadOnly_DeallocateAll:
  "DeallocateAll (WithReadOnly c) = DeallocateAll c"
  by (simp add: WithReadOnly_def)

lemma Config_eqI:
  fixes c d :: Config
  assumes "TxOptions c = TxOptions d" and "DeallocateAll c = DeallocateAll d"
  shows "c = d"
  using assms by simp

lemma With_commute:
  "WithReadOnly (WithIsolationLevel level c) = WithIsolationLevel level (WithReadOnly c)"
proof (rule Config_eqI)
  show "TxOptions (WithReadOnly (WithIsolationLevel level c))
      = TxOptions (WithIsolationLevel level (WithReadOnly c))"
    by (cases "TxOptions c") (simp_all add: WithIsolationLevel_Some WithReadOnly_Some)
  show "DeallocateAll (WithReadOnly (WithIsolationLevel level c))
      = DeallocateAll (WithIsolationLevel level (WithReadOnly c))"
    by (simp add: WithIsolationLevel_DeallocateAll WithReadOnly_DeallocateAll)
qed

text \<open>
  C10. In the functional-options variant, \<open>WithIsolationLevel L\<close> and \<open>WithReadOnly\<close>
  commute and compose: from the empty \<open>Config\<close>, either order gives the same
  configuration, whose \<open>TxOptions\<close> is allocated with \<open>Isolation = L\<close> and
  \<open>ReadOnly = true\<close>. Each option allocates \<open>TxOptions\<close> when it is nil and keeps the
  other field when it is not; the two commute from every starting configuration.
\<close>

theorem C10_isolation_readonly_commute:
  "applyOptions Config_zero [WithIsolationLevel L, WithReadOnly]
     = applyOptions Config_zero [WithReadOnly, WithIsolationLevel L]
   \<and> applyOptions Config_zero [WithIsolationLevel L, WithReadOnly]
     = \<lparr>TxOptions = Some \<lparr>Isolation = L, ReadOnly = True\<rparr>, DeallocateAll = False\<rparr>
   \<and> TxOptions (WithIsolationLevel L Config_zero) = Some \<lparr>Isolation = L, ReadOnly = False\<rparr>
   \<and> TxOptions (WithReadOnly Config_zero) = Some \<lparr>Isolation = 0, ReadOnly = True\<rparr>
   \<and> TxOptions (WithIsolationLevel L (c\<lparr>TxOptions := Some t\<rparr>)) = Some (t\<lparr>Isolation := L\<rparr>)
   \<and> TxOptions (WithReadOnly (c\<lparr>TxOptions := Some t\<rparr>)) = Some (t\<lparr>ReadOnly := True\<rparr>)
   \<and> applyOptions c [WithIsolationLevel L, WithReadOnly]
     = applyOptions c [WithReadOnly, WithIsolationLevel L]"
proof -
  have a: "applyOptions c [WithIsolationLevel L, WithReadOnly]
         = applyOptions c [WithReadOnly, WithIsolationLevel L]" for c
    by (simp add: With_commute)
  have b: "applyOptions Config_zero [WithIsolationLevel L, WithReadOnly]
         = \<lparr>TxOptions = Some \<lparr>Isolation = L, ReadOnly = True\<rparr>, DeallocateAll = False\<rparr>"
    by (simp add: Config_zero_def TxOptions_zero_def WithIsolationLevel_def WithReadOnly_def)
  have c1: "TxOptions (WithIsolationLevel L Config_zero) = Some \<lparr>Isolation = L, ReadOnly = False\<rparr>"
    by (simp add: Config_zero_def TxOptions_zero_def WithIsolationLevel_def)
  have c2: "TxOptions (WithReadOnly Config_zero) = Some \<lparr>Isolation = 0, ReadOnly = True\<rparr>"
    by (simp add: Config_zero_def TxOptions_zero_def WithReadOnly_def)
  have d1: "TxOptions (WithIsolationLevel L (c\<lparr>TxOptions := Some t\<rparr>)) = Some (t\<lparr>Isolation := L\<rparr>)"
    by (simp add: WithIsolationLevel_def)
  have d2: "TxOptions (WithReadOnly (c\<lparr>TxOptions := Some t\<rparr>)) = Some (t\<lparr>ReadOnly := True\<rparr>)"
    by (simp add: WithReadOnly_def)
  from a b c1 c2 d1 d2 show ?thesis by blast
qed

section \<open>Wrapped errors and the scripted driver\<close>

lemma Errorf_w_Unwrap: "Unwrap (Errorf_w prefix err) = Some err"
  by (simp add: Errorf_w_def)

lemma Errorf_w_Error: "Error (Errorf_w prefix err) = prefix @ Error err"
  by (simp add: Errorf_w_def)



lemma mockDB_sel:
  "BeginTxx (mockDB b e c r) ctx opts s = (case b of Some err \<Rightarrow> Inl err | None \<Rightarrow> Inr 1, Suc s)"
  "ExecContext (mockDB b e c r) tx ctx stmt s = (e, Suc s)"
  "Commit (mockDB b e c r) tx s = (c, Suc s)"
  "Rollback (mockDB b e c r) tx s = (r, Suc s)"
  by (simp_all add: mockDB_def)

section \<open>A call without configuration\<close>


section \<open>The claims about ExecuteContext\<close>



text \<open>
  C2 as stated fails: the deferred closure assigns only \<open>err\<close>, so once the unit of
  work has returned, its value stays in \<open>result\<close>. Here the unit of work returns
  \<open>(5, nil)\<close>, commit fails, and \<open>ExecuteContext\<close> returns 5 with the commit error,
  where the zero value is 0.
\<close>

theorem C2_commit_failure_counterexample:
  "outcome_of (ExecuteContext (0::int) Background
       (mockDB None None (Some (New ''conn lost'')) None)
       (returning 5 None :: (int, string, nat, nat) TxFunc) [] 0)
     = Return 5 (Some (Wrapped ''failed to commit transaction: conn lost'' (New ''conn lost'')))
   \<and> (5::int) \<noteq> 0"
  by (simp add: ExecuteContext_def Config_zero_def mockDB_sel returning_def deferred_ok
        Errorf_w_def outcome_of_def)

text \<open>
  C2, amended. When begin fails or the cleanup statement fails, \<open>ExecuteContext\<close>
  returns the zero value of the result type with the error. Once the unit of work has
  returned \<open>(v, e)\<close>, \<open>ExecuteContext\<close> returns \<open>v\<close> unchanged, with a non-nil error
  exactly when \<open>e\<close> is non-nil or commit fails.
\<close>

theorem C2_result_value_on_error:
  fixes txFunc :: "('a, 'p, 's, 'tx) TxFunc"
  shows
  "(BeginTxx db ctx (TxOptions (applyOptions Config_zero options)) s = (Inl err, s1)
      \<longrightarrow> outcome_of (ExecuteContext zero ctx db txFunc options s)
            = Return zero (Some (Errorf_w ''failed to begin transaction: '' err)))
   \<and> (BeginTxx db ctx (TxOptions (applyOptions Config_zero options)) s = (Inr tx, s1)
        \<and> DeallocateAll (applyOptions Config_zero options)
        \<and> ExecContext db tx ctx ''DEALLOCATE ALL'' s1 = (Some deallocErr, s2)
      \<longrightarrow> outcome_of (ExecuteContext zero ctx db txFunc options s)
            = Return zero
                (Some (Errorf_w ''failed to deallocate prepared statements: '' deallocErr)))
   \<and> (BeginTxx db ctx (TxOptions (applyOptions Config_zero options)) s = (Inr tx, s1)
        \<and> (if DeallocateAll (applyOptions Config_zero options)
            then ExecContext db tx ctx ''DEALLOCATE ALL'' s1 else (None, s1)) = (None, s2)
        \<and> txFunc tx s2 = (Return v e, s3)
      \<longrightarrow> (\<exists>e'. outcome_of (ExecuteContext zero ctx db txFunc options s) = Return v e'
                \<and> (e' = None \<longleftrightarrow> e = None \<and> fst (Commit db tx s3) = None)))"
proof (intro conjI impI)
  assume "BeginTxx db ctx (TxOptions (applyOptions Config_zero options)) s = (Inl err, s1)"
  then show "outcome_of (ExecuteContext zero ctx db txFunc options s)
            = Return zero (Some (Errorf_w ''failed to begin transaction: '' err))"
    by (simp add: ExecuteContext_begin_failed outcome_of_def)
next
  assume a: "BeginTxx db ctx (TxOptions (applyOptions Config_zero options)) s = (Inr tx, s1)
        \<and> DeallocateAll (applyOptions Config_zero options)
        \<and> ExecContext db tx ctx ''DEALLOCATE ALL'' s1 = (Some deallocErr, s2)"
  show "outcome_of (ExecuteContext zero ctx db txFunc options s)
            = Return zero
                (Some (Errorf_w ''failed to deallocate prepared statements: '' deallocErr))"
    using a
    by (simp add: ExecuteContext_cleanup_failed [where txFunc = txFunc and zero = zero]
          outcome_of_def)
next
  assume a: "BeginTxx db ctx (TxOptions (applyOptions Config_zero options)) s = (Inr tx, s1)
        \<and> (if DeallocateAll (applyOptions Config_zero options)
            then ExecContext db tx ctx ''DEALLOCATE ALL'' s1 else (None, s1)) = (None, s2)
        \<and> txFunc tx s2 = (Return v e, s3)"
  then have bg: "BeginTxx db ctx (TxOptions (applyOptions Config_zero options)) s = (Inr tx, s1)"
    and cl: "(if DeallocateAll (applyOptions Config_zero options)
            then ExecContext db tx ctx ''DEALLOCATE ALL'' s1 else (None, s1)) = (None, s2)"
    and w: "txFunc tx s2 = (Return v e, s3)"
    by blast+
  note run = ExecuteContext_body [where txFunc = txFunc and zero = zero, OF bg cl w]
  show "\<exists>e'. outcome_of (ExecuteContext zero ctx db txFunc options s) = Return v e'
                \<and> (e' = None \<longleftrightarrow> e = None \<and> fst (Commit db tx s3) = None)"
  proof (cases e)
    case None
    then show ?thesis
      by (simp add: run deferred_ok outcome_of_def)
  next
    case (Some e0)
    then show ?thesis
      by (simp add: run deferred_error outcome_of_def)
  qed
qed

theorem C2_result_value_on_error_witness:
  "outcome_of (ExecuteContext (0::int) Background
       (mockDB (Some (New ''no connection'')) None None None)
       (returning 5 None :: (int, string, nat, nat) TxFunc) [] 0)
     = Return 0 (Some (Wrapped ''failed to begin transaction: no connection''
                         (New ''no connection'')))
   \<and> outcome_of (ExecuteContext (0::int) Background
       (mockDB None (Some (New ''syntax error'')) None None)
       (returning 5 None :: (int, string, nat, nat) TxFunc) [WithDeallocateAll] 0)
     = Return 0 (Some (Wrapped ''failed to deallocate prepared statements: syntax error''
                         (New ''syntax error'')))
   \<and> (\<exists>e'. outcome_of (ExecuteContext (0::int) Background
       (mockDB None None (Some (New ''conn lost'')) None)
       (returning 5 None :: (int, string, nat, nat) TxFunc) [] 0)
     = Return 5 (Some e'))"
proof -
  have a: "outcome_of (ExecuteContext (0::int) Background
       (mockDB (Some (New ''no connection'')) None None None)
       (returning 5 None :: (int, string, nat, nat) TxFunc) [] 0)
     = Return 0 (Some (Wrapped ''failed to begin transaction: no connection''
                         (New ''no connection'')))"
    using C2_result_value_on_error [where db = "mockDB (Some (New ''no connection'')) None None None"
        and ctx = Background and options = "[]" and s = 0 and err = "New ''no connection''"
        and ?s1.0 = 1 and zero = "0::int"
        and txFunc = "returning 5 None :: (int, string, nat, nat) TxFunc"]
    by (simp add: mockDB_sel Errorf_w_def)
  have b: "outcome_of (ExecuteContext (0::int) Background
       (mockDB None (Some (New ''syntax error'')) None None)
       (returning 5 None :: (int, string, nat, nat) TxFunc) [WithDeallocateAll] 0)
     = Return 0 (Some (Wrapped ''failed to deallocate prepared statements: syntax error''
                         (New ''syntax error'')))"
    using C2_result_value_on_error [where db = "mockDB None (Some (New ''syntax error'')) None None"
        and ctx = Background and options = "[WithDeallocateAll]" and s = 0
        and tx = 1 and ?s1.0 = 1 and ?s2.0 = 2 and deallocErr = "New ''syntax error''"
        and zero = "0::int"
        and txFunc = "returning 5 None :: (int, string, nat, nat) TxFunc"]
    by (simp add: mockDB_sel Errorf_w_def Config_zero_def WithDeallocateAll_def)
  have c: "\<exists>e'. outcome_of (ExecuteContext (0::int) Background
       (mockDB None None (Some (New ''conn lost'')) None)
       (returning 5 None :: (int, string, nat, nat) TxFunc) [] 0)
     = Return 5 (Some e')"
    using C2_result_value_on_error [where db = "mockDB None None (Some (New ''conn lost'')) None"
        and ctx = Background and options = "[]" and s = 0
        and tx = 1 and ?s1.0 = 1 and ?s2.0 = 1 and ?s3.0 = 2 and v = 5 and e = None
        and zero = "0::int"
        and txFunc = "returning 5 None :: (int, string, nat, nat) TxFunc"]
    by (auto simp add: mockDB_sel Config_zero_def returning_def)
  from a b c show ?thesis by blast
qed

text \<open>
  C3. When the unit of work returns a value \<open>v\<close> with a nil error, and begin, the
  optional cleanup and commit all succeed, \<open>ExecuteContext\<close> attempts commit exactly once,
  never rollback, and returns exactly \<open>(v, nil)\<close>. The calls are begin, the cleanup
  statement when \<open>DeallocateAll\<close> is set, the unit of work, commit.
\<close>

theorem C3_success_commits_and_returns_value:
  fixes txFunc :: "('a, 'p, 's, 'tx) TxFunc"
  assumes "BeginTxx db ctx (TxOptions (applyOptions Config_zero options)) s = (Inr tx, s1)"
    and "(if DeallocateAll (applyOptions Config_zero options)
          then ExecContext db tx ctx ''DEALLOCATE ALL'' s1 else (None, s1)) = (None, s2)"
    and "txFunc tx s2 = (Return v None, s3)"
    and "Commit db tx s3 = (None, s4)"
  shows "ExecuteContext zero ctx db txFunc options s =
           (Return v None, s4,
            EvBegin ctx (TxOptions (applyOptions Config_zero options))
            # (if DeallocateAll (applyOptions Config_zero options)
               then [EvExec tx ctx ''DEALLOCATE ALL''] else [])
            @ [EvTxFunc tx, EvCommit tx])
       \<and> filter is_commit (trace_of (ExecuteContext zero ctx db txFunc options s)) = [EvCommit tx]
       \<and> filter is_rollback (trace_of (ExecuteContext zero ctx db txFunc options s)) = []"
proof -
  note run = ExecuteContext_body [where txFunc = txFunc and zero = zero, OF assms(1-3)]
  have r: "ExecuteContext zero ctx db txFunc options s =
           (Return v None, s4,
            EvBegin ctx (TxOptions (applyOptions Config_zero options))
            # (if DeallocateAll (applyOptions Config_zero options)
               then [EvExec tx ctx ''DEALLOCATE ALL''] else [])
            @ [EvTxFunc tx, EvCommit tx])"
    by (simp add: run deferred_ok assms(4))
  show ?thesis
    by (simp add: r trace_of_def)
qed

theorem C3_success_commits_and_returns_value_witness:
  "ExecuteContext (0::int) Background (mockDB None None None None)
       (returning 1 None :: (int, string, nat, nat) TxFunc) [WithDeallocateAll] 0
     = (Return 1 None, 4,
        [EvBegin Background None, EvExec 1 Background ''DEALLOCATE ALL'', EvTxFunc 1, EvCommit 1])"
proof -
  have b: "BeginTxx (mockDB None None None None) Background
             (TxOptions (applyOptions Config_zero [WithDeallocateAll])) 0 = (Inr 1, 1)"
    by (simp add: mockDB_sel)
  have c: "(if DeallocateAll (applyOptions Config_zero [WithDeallocateAll])
            then ExecContext (mockDB None None None None) 1 Background ''DEALLOCATE ALL'' 1
            else (None, 1)) = (None, 2)"
    by (simp add: mockDB_sel Config_zero_def WithDeallocateAll_def)
  have w: "(returning 1 None :: (int, string, nat, nat) TxFunc) 1 2 = (Return 1 None, 3)"
    by (simp add: returning_def)
  have k: "Commit (mockDB None None None None) 1 3 = (None, 4)"
    by (simp add: mockDB_sel)
  show ?thesis
    using C3_success_commits_and_returns_value
            [where txFunc = "returning 1 None :: (int, string, nat, nat) TxFunc"
               and zero = "0::int", OF b c w k]
    by (simp add: Config_zero_def WithDeallocateAll_def)
qed



text \<open>
  C5. When the unit of work panics with payload \<open>p\<close>, \<open>ExecuteContext\<close> attempts rollback
  exactly once, whatever rollback answers, and ends by panicking with the same payload
  \<open>p\<close>: it does not return, with or without an error.
\<close>

theorem C5_panic_rolls_back_and_repanics:
  fixes txFunc :: "('a, 'p, 's, 'tx) TxFunc"
  assumes "BeginTxx db ctx (TxOptions (applyOptions Config_zero options)) s = (Inr tx, s1)"
    and "(if DeallocateAll (applyOptions Config_zero options)
          then ExecContext db tx ctx ''DEALLOCATE ALL'' s1 else (None, s1)) = (None, s2)"
    and "txFunc tx s2 = (Panic p, s3)"
  shows "ExecuteContext zero ctx db txFunc options s =
           (Panic p, snd (Rollback db tx s3),
            EvBegin ctx (TxOptions (applyOptions Config_zero options))
            # (if DeallocateAll (applyOptions Config_zero options)
               then [EvExec tx ctx ''DEALLOCATE ALL''] else [])
            @ [EvTxFunc tx, EvRollback tx])
       \<and> filter is_resolve (trace_of (ExecuteContext zero ctx db txFunc options s))
           = [EvRollback tx]
       \<and> outcome_of (ExecuteContext zero ctx db txFunc options s) = Panic p"
proof -
  note run = ExecuteContext_body [where txFunc = txFunc and zero = zero, OF assms]
  have r: "ExecuteContext zero ctx db txFunc options s =
           (Panic p, snd (Rollback db tx s3),
            EvBegin ctx (TxOptions (applyOptions Config_zero options))
            # (if DeallocateAll (applyOptions Config_zero options)
               then [EvExec tx ctx ''DEALLOCATE ALL''] else [])
            @ [EvTxFunc tx, EvRollback tx])"
    by (simp add: run deferred_Panic)
  show ?thesis
    by (simp add: r trace_of_def outcome_of_def is_resolve_def)
qed

theorem C5_panic_rolls_back_and_repanics_witness:
  "ExecuteContext (0::int) Background (mockDB None None None (Some (New ''conn lost'')))
       (panicking ''boom'' :: (int, string, nat, nat) TxFunc) [] 0
     = (Panic ''boom'', 3, [EvBegin Background None, EvTxFunc 1, EvRollback 1])"
proof -
  have b: "BeginTxx (mockDB None None None (Some (New ''conn lost''))) Background
             (TxOptions (applyOptions Config_zero [])) 0 = (Inr 1, 1)"
    by (simp add: mockDB_sel)
  have c: "(if DeallocateAll (applyOptions Config_zero [])
            then ExecContext (mockDB None None None (Some (New ''conn lost''))) 1 Background
                   ''DEALLOCATE ALL'' 1
            else (None, 1)) = (None, 1)"
    by (simp add: Config_zero_def)
  have w: "(panicking ''boom'' :: (int, string, nat, nat) TxFunc) 1 1 = (Panic ''boom'', 2)"
    by (simp add: panicking_def)
  show ?thesis
    using C5_panic_rolls_back_and_repanics
            [where txFunc = "panicking ''boom'' :: (int, string, nat, nat) TxFunc"
               and zero = "0::int", OF b c w]
    by (simp add: mockDB_sel Config_zero_def)
qed

text \<open>
  C6. If beginning the transaction fails, \<open>ExecuteContext\<close> returns at once the zero
  result and an error whose message is \<open>failed to begin transaction: \<close> followed by the
  message of the begin error, and which unwraps to the begin error. The begin call is
  the only call it has made: no cleanup statement, no unit of work, no commit, no
  rollback, and the driver state is the one begin left.
\<close>

theorem C6_begin_failure:
  fixes txFunc :: "('a, 'p, 's, 'tx) TxFunc"
  assumes "BeginTxx db ctx (TxOptions (applyOptions Config_zero options)) s = (Inl err, s1)"
  shows "ExecuteContext zero ctx db txFunc options s =
           (Return zero (Some (Errorf_w ''failed to begin transaction: '' err)), s1,
            [EvBegin ctx (TxOptions (applyOptions Config_zero options))])
       \<and> Unwrap (Errorf_w ''failed to begin transaction: '' err) = Some err
       \<and> Error (Errorf_w ''failed to begin transaction: '' err)
           = ''failed to begin transaction: '' @ Error err
       \<and> filter is_exec (trace_of (ExecuteContext zero ctx db txFunc options s)) = []
       \<and> filter is_txfunc (trace_of (ExecuteContext zero ctx db txFunc options s)) = []
       \<and> filter is_resolve (trace_of (ExecuteContext zero ctx db txFunc options s)) = []"
  by (simp add: ExecuteContext_begin_failed [where txFunc = txFunc and zero = zero, OF assms]
        Errorf_w_Unwrap Errorf_w_Error trace_of_def is_resolve_def)

theorem C6_begin_failure_witness:
  "ExecuteContext (0::int) Background (mockDB (Some (New ''no connection'')) None None None)
       (returning 5 None :: (int, string, nat, nat) TxFunc) [WithDeallocateAll] 0
     = (Return 0 (Some (Wrapped ''failed to begin transaction: no connection''
                          (New ''no connection''))),
        1, [EvBegin Background None])"
proof -
  have b: "BeginTxx (mockDB (Some (New ''no connection'')) None None None) Background
             (TxOptions (applyOptions Config_zero [WithDeallocateAll])) 0
           = (Inl (New ''no connection''), 1)"
    by (simp add: mockDB_sel)
  show ?thesis
    using C6_begin_failure [where txFunc = "returning 5 None :: (int, string, nat, nat) TxFunc"
                              and zero = "0::int", OF b]
    by (simp add: Config_zero_def WithDeallocateAll_def Errorf_w_def)
qed

text \<open>
  C7. If \<open>DeallocateAll\<close> is set and the cleanup statement run right after begin fails,
  \<open>ExecuteContext\<close> attempts rollback exactly once, whatever rollback answers, does not
  invoke the unit of work, and returns the zero result with an error whose message is
  \<open>failed to deallocate prepared statements: \<close> followed by the message of the cleanup
  error, and which unwraps to the cleanup error.
\<close>

theorem C7_cleanup_failure:
  fixes txFunc :: "('a, 'p, 's, 'tx) TxFunc"
  assumes "BeginTxx db ctx (TxOptions (applyOptions Config_zero options)) s = (Inr tx, s1)"
    and "DeallocateAll (applyOptions Config_zero options)"
    and "ExecContext db tx ctx ''DEALLOCATE ALL'' s1 = (Some deallocErr, s2)"
  shows "ExecuteContext zero ctx db txFunc options s =
           (Return zero
              (Some (Errorf_w ''failed to deallocate prepared statements: '' deallocErr)),
            snd (Rollback db tx s2),
            [EvBegin ctx (TxOptions (applyOptions Config_zero options)),
             EvExec tx ctx ''DEALLOCATE ALL'', EvRollback tx])
       \<and> Unwrap (Errorf_w ''failed to deallocate prepared statements: '' deallocErr)
           = Some deallocErr
       \<and> Error (Errorf_w ''failed to deallocate prepared statements: '' deallocErr)
           = ''failed to deallocate prepared statements: '' @ Error deallocErr
       \<and> filter is_resolve (trace_of (ExecuteContext zero ctx db txFunc options s))
           = [EvRollback tx]
       \<and> filter is_txfunc (trace_of (ExecuteContext zero ctx db txFunc options s)) = []"
  by (simp add: ExecuteContext_cleanup_failed [where txFunc = txFunc and zero = zero, OF assms]
        Errorf_w_Unwrap Errorf_w_Error trace_of_def is_resolve_def)

theorem C7_cleanup_failure_witness:
  "ExecuteContext (0::int) Background
       (mockDB None (Some (New ''syntax error'')) None (Some (New ''conn lost'')))
       (returning 5 None :: (int, string, nat, nat) TxFunc) [WithDeallocateAll] 0
     = (Return 0 (Some (Wrapped ''failed to deallocate prepared statements: syntax error''
                          (New ''syntax error''))),
        3, [EvBegin Background None, EvExec 1 Background ''DEALLOCATE ALL'', EvRollback 1])"
proof -
  let ?db = "mockDB None (Some (New ''syntax error'')) None (Some (New ''conn lost''))"
  have b: "BeginTxx ?db Background (TxOptions (applyOptions Config_zero [WithDeallocateAll])) 0
           = (Inr 1, 1)"
    by (simp add: mockDB_sel)
  have d: "DeallocateAll (applyOptions Config_zero [WithDeallocateAll])"
    by (simp add: Config_zero_def WithDeallocateAll_def)
  have c: "ExecContext ?db 1 Background ''DEALLOCATE ALL'' 1 = (Some (New ''syntax error''), 2)"
    by (simp add: mockDB_sel)
  show ?thesis
    using C7_cleanup_failure [where txFunc = "returning 5 None :: (int, string, nat, nat) TxFunc"
                                and zero = "0::int", OF b d c]
    by (simp add: mockDB_sel Config_zero_def WithDeallocateAll_def Errorf_w_def)
qed



end
